theory Spec2Isabelle
  imports Complex_Main
begin

section \<open>The Python runtime pieces that let\_me\_go.py relies on\<close>

text \<open>
  Exceptions are values. Only the classes that the source catches by name, or that escape
  a handler of the source, are told apart.
\<close>

datatype exn = ValueError | AttributeError | OverflowError | TypeError

subsection \<open>Strings\<close>

text \<open>
  A Python \<open>str\<close> is modelled as a HOL \<open>string\<close>, one \<open>char\<close> per code point; the
  model therefore covers the code points below 256. Among those, \<open>str.strip()\<close> removes
  the characters for which \<open>str.isspace()\<close> holds, while \<open>int()\<close> skips a slightly
  smaller set (it leaves the ASCII separators 0x1C..0x1F alone), and the only decimal
  digits are \<open>0\<close>..\<open>9\<close>.
\<close>

definition isspace :: "char \<Rightarrow> bool" where
  "isspace c \<longleftrightarrow> c \<in> set [CHR 0x09, CHR 0x0A, CHR 0x0B, CHR 0x0C, CHR 0x0D,
     CHR 0x1C, CHR 0x1D, CHR 0x1E, CHR 0x1F, CHR 0x20, CHR 0x85, CHR 0xA0]"

definition int_space :: "char \<Rightarrow> bool" where
  "int_space c \<longleftrightarrow> c \<in> set [CHR 0x09, CHR 0x0A, CHR 0x0B, CHR 0x0C, CHR 0x0D,
     CHR 0x20, CHR 0x85, CHR 0xA0]"

definition isdigit :: "char \<Rightarrow> bool" where
  "isdigit c \<longleftrightarrow> c \<in> set ''0123456789''"

definition digit_value :: "char \<Rightarrow> int" where
  "digit_value c = int (of_char c) - 48"

definition trim :: "(char \<Rightarrow> bool) \<Rightarrow> string \<Rightarrow> string" where
  "trim sp s = rev (dropWhile sp (rev (dropWhile sp s)))"

text \<open>\<open>s.strip()\<close>\<close>

definition strip :: "string \<Rightarrow> string" where
  "strip s = trim isspace s"

text \<open>\<open>s.split(":")\<close>: never empty, one more part than there are colons.\<close>

fun split_colon :: "string \<Rightarrow> string list" where
  "split_colon [] = [[]]"
| "split_colon (c # cs) =
     (if c = CHR '':'' then [] # split_colon cs
      else (case split_colon cs of
              [] \<Rightarrow> [[c]]
            | p # ps \<Rightarrow> (c # p) # ps))"

text \<open>
  \<open>int(s)\<close> in base 10: surrounding white space, an optional sign, then digits in which
  single underscores may separate two digits. A literal of more than 4300 digits is
  refused (CPython's default \<open>sys.int_info.default_max_str_digits\<close>). Every failure
  is a \<open>ValueError\<close>.
\<close>

fun int_body :: "string \<Rightarrow> bool" where
  "int_body [] = False"
| "int_body [c] = isdigit c"
| "int_body (c # d # cs) =
     (isdigit c \<and> (if d = CHR ''_'' then int_body cs else int_body (d # cs)))"

definition digits_value :: "string \<Rightarrow> int" where
  "digits_value ds = foldl (\<lambda>a c. 10 * a + digit_value c) 0 ds"

definition max_str_digits :: nat where
  "max_str_digits = 4300"

definition py_int :: "string \<Rightarrow> exn + int" where
  "py_int s =
     (let t = trim int_space s;
          neg = (t \<noteq> [] \<and> hd t = CHR ''-'');
          body = (if t \<noteq> [] \<and> (hd t = CHR ''+'' \<or> hd t = CHR ''-'') then tl t else t);
          ds = filter isdigit body
      in if int_body body \<and> length ds \<le> max_str_digits
         then Inr (if neg then - digits_value ds else digits_value ds)
         else Inl ValueError)"

subsection \<open>\<open>datetime.time\<close>, \<open>datetime.date\<close>, \<open>datetime.datetime\<close>\<close>

text \<open>
  A \<open>datetime.time\<close> object is a record of its four fields. Python orders two naive
  times as it orders the tuples \<open>(hour, minute, second, microsecond)\<close>.
\<close>

record pytime =
  hour :: int
  minute :: int
  second :: int
  microsecond :: int

definition time_le :: "pytime \<Rightarrow> pytime \<Rightarrow> bool" where
  "time_le a b \<longleftrightarrow>
     hour a < hour b \<or> (hour a = hour b \<and>
       (minute a < minute b \<or> (minute a = minute b \<and>
         (second a < second b \<or> (second a = second b \<and>
           microsecond a \<le> microsecond b)))))"

text \<open>
  \<open>datetime.time(hour, minute)\<close>. CPython's constructor first converts each argument to
  a C \<open>int\<close> and raises \<open>OverflowError\<close> when one does not fit in 32 bits; only then
  does it check the ranges 0..23 and 0..59, raising \<open>ValueError\<close>.
\<close>

definition fits_c_int :: "int \<Rightarrow> bool" where
  "fits_c_int n \<longleftrightarrow> - (2 ^ 31) \<le> n \<and> n < 2 ^ 31"

definition datetime_time :: "int \<Rightarrow> int \<Rightarrow> exn + pytime" where
  "datetime_time h m =
     (if \<not> fits_c_int h \<or> \<not> fits_c_int m then Inl OverflowError
      else if 0 \<le> h \<and> h \<le> 23 \<and> 0 \<le> m \<and> m \<le> 59
        then Inr \<lparr>hour = h, minute = m, second = 0, microsecond = 0\<rparr>
      else Inl ValueError)"

text \<open>
  A date is its proleptic Gregorian ordinal (\<open>date.toordinal()\<close>, day 1 is Monday
  0001-01-01); a naive datetime is the number of microseconds since midnight of day 0; a
  timedelta is a number of microseconds. Addition, subtraction and comparison of
  datetimes are then those of the integers. The library's range limits (years 1..9999,
  timedeltas below 10^9 days) are not modelled.
\<close>

type_synonym date = int
type_synonym datetime = int
type_synonym timedelta = int

definition us_per_second :: int where "us_per_second = 1000000"
definition us_per_minute :: int where "us_per_minute = 60000000"
definition us_per_hour :: int where "us_per_hour = 3600000000"
definition us_per_day :: int where "us_per_day = 86400000000"

definition us_of_time :: "pytime \<Rightarrow> int" where
  "us_of_time t =
     hour t * us_per_hour + minute t * us_per_minute + second t * us_per_second + microsecond t"

definition time_of_us :: "int \<Rightarrow> pytime" where
  "time_of_us u =
     \<lparr>hour = u div us_per_hour, minute = (u div us_per_minute) mod 60,
      second = (u div us_per_second) mod 60, microsecond = u mod us_per_second\<rparr>"

text \<open>\<open>now.date()\<close>, \<open>now.time()\<close>, \<open>now.weekday()\<close> and \<open>datetime.combine\<close>\<close>

definition dt_date :: "datetime \<Rightarrow> date" where
  "dt_date now = now div us_per_day"

definition dt_time :: "datetime \<Rightarrow> pytime" where
  "dt_time now = time_of_us (now mod us_per_day)"

definition py_weekday :: "datetime \<Rightarrow> int" where
  "py_weekday now = (dt_date now + 6) mod 7"

definition combine :: "date \<Rightarrow> pytime \<Rightarrow> datetime" where
  "combine d t = d * us_per_day + us_of_time t"

definition td_minutes :: "int \<Rightarrow> timedelta" where
  "td_minutes n = n * us_per_minute"

definition td_hours :: "int \<Rightarrow> timedelta" where
  "td_hours n = n * us_per_hour"

definition td_days :: "int \<Rightarrow> timedelta" where
  "td_days n = n * us_per_day"

section \<open>Utility functions\<close>

text \<open>
  \<open>parse_time\<close> (lines 158-164). The argument is what \<open>dict.get\<close> returned: \<open>None\<close>
  stands for a missing key and for any value that is not a \<open>str\<close>, all of which have
  no \<open>split\<close> attribute. The handler catches \<open>ValueError\<close> and \<open>AttributeError\<close>
  and nothing else.
\<close>

definition parse_time_try :: "string option \<Rightarrow> exn + pytime" where
  "parse_time_try time_str =
     (case time_str of
        None \<Rightarrow> Inl AttributeError
      | Some s \<Rightarrow>
          (case split_colon s of
             [a, b] \<Rightarrow>
               (case py_int a of
                  Inl e \<Rightarrow> Inl e
                | Inr h \<Rightarrow>
                    (case py_int b of
                       Inl e \<Rightarrow> Inl e
                     | Inr m \<Rightarrow> datetime_time h m))
           | _ \<Rightarrow> Inl ValueError))"

definition parse_time :: "string option \<Rightarrow> exn + pytime option" where
  "parse_time time_str =
     (case parse_time_try time_str of
        Inr t \<Rightarrow> Inr (Some t)
      | Inl e \<Rightarrow> if e = ValueError \<or> e = AttributeError then Inr None else Inl e)"

text \<open>\<open>time_in_range\<close> (lines 167-173)\<close>

definition time_in_range :: "pytime \<Rightarrow> pytime \<Rightarrow> pytime \<Rightarrow> bool" where
  "time_in_range start_time end_time current_time =
     (if time_le start_time end_time
      then time_le start_time current_time \<and> time_le current_time end_time
      else time_le start_time current_time \<or> time_le current_time end_time)"

section \<open>The reminder service\<close>

text \<open>
  The configuration as \<open>reminder_service\<close> reads it (lines 740-745): each field holds
  what the corresponding \<open>self.config.get\<close> returned. A period is a dictionary whose
  \<open>start\<close> and \<open>end\<close> entries are looked up with \<open>period.get\<close>; a text field is
  \<open>None\<close> when the key is missing or the value is not a string.
\<close>

record period =
  period_start :: "string option"
  period_end :: "string option"

record config =
  work_periods :: "period list"
  block_periods :: "period list"
  interval_minutes :: int
  workdays :: "int list"
  off_work_time :: "string option"
  off_work_reminder_enabled :: bool

text \<open>The attributes of \<open>LetMeGoApp\<close> that the service reads and writes (lines 184-189).\<close>

record app_state =
  is_first_start :: bool
  last_reminder_time :: "datetime option"
  next_reminder :: "datetime option"
  last_off_work_reminder_date :: "date option"

definition initial_state :: app_state where
  "initial_state =
     \<lparr>is_first_start = True, last_reminder_time = None, next_reminder = None,
      last_off_work_reminder_date = None\<rparr>"

text \<open>
  The two calls of \<open>show_reminder_popup\<close>: without arguments (the stand-up reminder) and
  with the off-work message.
\<close>

datatype popup = StandUp | OffWork

definition is_workday :: "config \<Rightarrow> datetime \<Rightarrow> bool" where
  "is_workday cfg now \<longleftrightarrow> py_weekday now + 1 \<in> set (workdays cfg)"

text \<open>
  Lines 755-771. \<open>total_seconds()\<close> is the microsecond count divided by 10^6; the
  difference lies within two days of zero, where the division is far more precise than a
  microsecond, so the test against 30 is a test of the microsecond count against
  30 000 000.
\<close>

definition off_work_check :: "config \<Rightarrow> app_state \<Rightarrow> datetime \<Rightarrow> exn + app_state \<times> popup list" where
  "off_work_check cfg st now =
     (if is_workday cfg now \<and> off_work_reminder_enabled cfg \<and> off_work_time cfg \<noteq> Some []
      then
        (case parse_time (off_work_time cfg) of
           Inl e \<Rightarrow> Inl e
         | Inr None \<Rightarrow> Inr (st, [])
         | Inr (Some t) \<Rightarrow>
             (let today = dt_date now;
                  off_work_dt = combine today t;
                  reminder_dt = off_work_dt - td_minutes 10;
                  time_diff = \<bar>now - reminder_dt\<bar>
              in if time_diff \<le> 30 * us_per_second
                    \<and> last_off_work_reminder_date st \<noteq> Some today
                 then Inr (st\<lparr>last_off_work_reminder_date := Some today\<rparr>, [OffWork])
                 else Inr (st, [])))
      else Inr (st, []))"

text \<open>
  The two loops of lines 776-781 and 785-790: both texts of a period are parsed before
  the test, and the loop stops at the first period that matches.
\<close>

fun in_periods :: "period list \<Rightarrow> pytime \<Rightarrow> exn + bool" where
  "in_periods [] current_time = Inr False"
| "in_periods (p # ps) current_time =
     (case parse_time (period_start p) of
        Inl e \<Rightarrow> Inl e
      | Inr start_time \<Rightarrow>
          (case parse_time (period_end p) of
             Inl e \<Rightarrow> Inl e
           | Inr end_time \<Rightarrow>
               (case (start_time, end_time) of
                  (Some s, Some e) \<Rightarrow>
                    if time_in_range s e current_time then Inr True
                    else in_periods ps current_time
                | _ \<Rightarrow> in_periods ps current_time)))"

text \<open>Lines 818-824 (with \<open>period_start\<close>) and 841-847 (with \<open>period_end\<close>).\<close>

fun rolled_times :: "(period \<Rightarrow> string option) \<Rightarrow> period list \<Rightarrow> datetime \<Rightarrow> exn + datetime list" where
  "rolled_times field [] now = Inr []"
| "rolled_times field (p # ps) now =
     (case parse_time (field p) of
        Inl e \<Rightarrow> Inl e
      | Inr parsed \<Rightarrow>
          (case rolled_times field ps now of
             Inl e \<Rightarrow> Inl e
           | Inr rest \<Rightarrow>
               (case parsed of
                  None \<Rightarrow> Inr rest
                | Some t \<Rightarrow>
                    (let dt = combine (dt_date now) t
                     in Inr ((if dt \<le> now then dt + td_days 1 else dt) # rest)))))"

text \<open>The \<open>while\<close> loop of lines 829-832; it leaves \<open>days_ahead\<close> between 1 and 8.\<close>

function find_days_ahead :: "int \<Rightarrow> int list \<Rightarrow> int \<Rightarrow> int" where
  "find_days_ahead weekday wds days_ahead =
     (if (weekday + days_ahead - 1) mod 7 + 1 \<notin> set wds
      then (if days_ahead + 1 > 7 then days_ahead + 1
            else find_days_ahead weekday wds (days_ahead + 1))
      else days_ahead)"
  by pat_completeness auto
termination
  by (relation "measure (\<lambda>(weekday, wds, days_ahead). nat (8 - days_ahead))") auto

text \<open>Lines 827-838.\<close>

definition next_workday_times :: "config \<Rightarrow> datetime \<Rightarrow> exn + datetime list" where
  "next_workday_times cfg now =
     (if \<not> is_workday cfg now \<and> workdays cfg \<noteq> []
      then
        (let days_ahead = find_days_ahead (py_weekday now + 1) (workdays cfg) 1
         in case work_periods cfg of
              first_period # _ \<Rightarrow>
                if days_ahead \<le> 7
                then
                  (case parse_time (period_start first_period) of
                     Inl e \<Rightarrow> Inl e
                   | Inr None \<Rightarrow> Inr []
                   | Inr (Some t) \<Rightarrow> Inr [combine (dt_date now + days_ahead) t])
                else Inr []
            | [] \<Rightarrow> Inr [])
      else Inr [])"

text \<open>The work-period start candidates: lines 816-838.\<close>

definition work_start_times :: "config \<Rightarrow> datetime \<Rightarrow> exn + datetime list" where
  "work_start_times cfg now =
     (case (if is_workday cfg now then rolled_times period_start (work_periods cfg) now
            else Inr []) of
        Inl e \<Rightarrow> Inl e
      | Inr today_or_tomorrow \<Rightarrow>
          (case next_workday_times cfg now of
             Inl e \<Rightarrow> Inl e
           | Inr next_workday \<Rightarrow> Inr (today_or_tomorrow @ next_workday)))"

text \<open>Lines 813-853: the value assigned to \<open>self.next_reminder\<close> in the \<open>else\<close> branch.\<close>

definition next_occurrence :: "config \<Rightarrow> datetime \<Rightarrow> exn + datetime" where
  "next_occurrence cfg now =
     (case work_start_times cfg now of
        Inl e \<Rightarrow> Inl e
      | Inr starts \<Rightarrow>
          (case rolled_times period_end (block_periods cfg) now of
             Inl e \<Rightarrow> Inl e
           | Inr ends \<Rightarrow>
               (let next_times = starts @ ends
                in if next_times \<noteq> [] then Inr (min_list next_times)
                   else Inr (now + td_hours 1))))"

text \<open>
  Lines 792-853. In the last branch of the active case the source computes the remaining
  time in binary floating point (\<open>total_seconds() / 60\<close>, a subtraction, and
  \<open>timedelta(minutes=remaining)\<close>, which rounds to a microsecond). That arithmetic is
  not modelled: the parameter \<open>fl\<close> stands for it, taking the interval and the elapsed
  time to the timedelta that is added to \<open>now\<close>.

  The test \<open>total_seconds() >= interval * 60\<close> is modelled on the exact microsecond
  counts; the rounding of \<open>total_seconds()\<close> cannot change its outcome while
  \<open>interval * 60\<close> is below 2^34 seconds.
\<close>

definition regular_reminder ::
  "(int \<Rightarrow> timedelta \<Rightarrow> timedelta) \<Rightarrow> config \<Rightarrow> app_state \<Rightarrow> datetime \<Rightarrow> bool \<Rightarrow> bool
     \<Rightarrow> exn + app_state \<times> popup list" where
  "regular_reminder fl cfg st now in_work_period in_block_period =
     (let interval = interval_minutes cfg in
      if in_work_period \<and> \<not> in_block_period then
        if is_first_start st then
          Inr (st\<lparr>last_reminder_time := Some now, is_first_start := False,
                  next_reminder := Some (now + td_minutes interval)\<rparr>, [])
        else
          (case last_reminder_time st of
             None \<Rightarrow>
               Inr (st\<lparr>last_reminder_time := Some now,
                       next_reminder := Some (now + td_minutes interval)\<rparr>, [StandUp])
           | Some last_time \<Rightarrow>
               if now - last_time \<ge> interval * 60 * us_per_second
               then Inr (st\<lparr>last_reminder_time := Some now,
                            next_reminder := Some (now + td_minutes interval)\<rparr>, [StandUp])
               else Inr (st\<lparr>next_reminder := Some (now + fl interval (now - last_time))\<rparr>, []))
      else
        (case next_occurrence cfg now of
           Inl e \<Rightarrow> Inl e
         | Inr dt \<Rightarrow> Inr (st\<lparr>next_reminder := Some dt\<rparr>, [])))"

text \<open>Lines 855-857.\<close>

definition daily_reset :: "app_state \<Rightarrow> date \<Rightarrow> app_state" where
  "daily_reset st today =
     (case last_off_work_reminder_date st of
        None \<Rightarrow> st
      | Some d \<Rightarrow> if d < today then st\<lparr>last_off_work_reminder_date := None\<rparr> else st)"

text \<open>
  One pass through the body of the \<open>while self.running\<close> loop (lines 730-868), for the
  configuration that \<open>load_config\<close> returned and the clock reading \<open>now\<close>. A pass ends
  in one of three ways: it reaches the end of the \<open>try\<close> block, it leaves through
  \<open>continue\<close> because there is no work period, or an exception reaches the handler of
  line 866; in the last case the attributes keep what was assigned before the exception.
\<close>

datatype outcome = Completed | Skipped | Raised exn

record tick_result =
  after :: app_state
  popups :: "popup list"
  outcome :: outcome

definition tick ::
  "(int \<Rightarrow> timedelta \<Rightarrow> timedelta) \<Rightarrow> config \<Rightarrow> app_state \<Rightarrow> datetime \<Rightarrow> tick_result" where
  "tick fl cfg st now =
     (if work_periods cfg = [] then \<lparr>after = st, popups = [], outcome = Skipped\<rparr>
      else
        (case off_work_check cfg st now of
           Inl e \<Rightarrow> \<lparr>after = st, popups = [], outcome = Raised e\<rparr>
         | Inr (st1, shown1) \<Rightarrow>
             (case (if is_workday cfg now then in_periods (work_periods cfg) (dt_time now)
                    else Inr False) of
                Inl e \<Rightarrow> \<lparr>after = st1, popups = shown1, outcome = Raised e\<rparr>
              | Inr in_work_period \<Rightarrow>
                  (case in_periods (block_periods cfg) (dt_time now) of
                     Inl e \<Rightarrow> \<lparr>after = st1, popups = shown1, outcome = Raised e\<rparr>
                   | Inr in_block_period \<Rightarrow>
                       (case regular_reminder fl cfg st1 now in_work_period in_block_period of
                          Inl e \<Rightarrow> \<lparr>after = st1, popups = shown1, outcome = Raised e\<rparr>
                        | Inr (st2, shown2) \<Rightarrow>
                            \<lparr>after = daily_reset st2 (dt_date now),
                             popups = shown1 @ shown2, outcome = Completed\<rparr>)))))"

text \<open>
  What happens to the attributes over time: passes of the service loop, interleaved with
  the two other writers of \<open>last_reminder_time\<close>, the "yes" button of a stand-up popup
  (line 723) and a configuration saved while the service runs (line 574). The log
  records each popup with the clock reading of the pass that showed it.
\<close>

datatype event = Tick config datetime | PopupYes datetime | ConfigSaved

fun run ::
  "(int \<Rightarrow> timedelta \<Rightarrow> timedelta) \<Rightarrow> app_state \<Rightarrow> event list \<Rightarrow> (datetime \<times> popup) list" where
  "run fl st [] = []"
| "run fl st (Tick cfg now # evs) =
     (let r = tick fl cfg st now
      in map (\<lambda>p. (now, p)) (popups r) @ run fl (after r) evs)"
| "run fl st (PopupYes t # evs) = run fl (st\<lparr>last_reminder_time := Some t\<rparr>) evs"
| "run fl st (ConfigSaved # evs) = run fl (st\<lparr>last_reminder_time := None\<rparr>) evs"

fun tick_times :: "event list \<Rightarrow> datetime list" where
  "tick_times [] = []"
| "tick_times (Tick cfg now # evs) = now # tick_times evs"
| "tick_times (_ # evs) = tick_times evs"

text \<open>How often the off-work popup was shown on a given date.\<close>

definition off_work_count :: "date \<Rightarrow> (datetime \<times> popup) list \<Rightarrow> nat" where
  "off_work_count d shown = length (filter (\<lambda>(t, p). p = OffWork \<and> dt_date t = d) shown)"

text \<open>
  The windows of the specification: a configured period matches a clock time when both of
  its texts parse and \<open>time_in_range\<close> holds.
\<close>

definition window_matches :: "period \<Rightarrow> pytime \<Rightarrow> bool" where
  "window_matches p t =
     (case (parse_time (period_start p), parse_time (period_end p)) of
        (Inr (Some s), Inr (Some e)) \<Rightarrow> time_in_range s e t
      | _ \<Rightarrow> False)"

text \<open>The default configuration of lines 43-55, and an instant given by date and clock.\<close>

definition default_cfg :: config where
  "default_cfg =
     \<lparr>work_periods = [\<lparr>period_start = Some ''09:00'', period_end = Some ''18:00''\<rparr>],
      block_periods = [\<lparr>period_start = Some ''12:00'', period_end = Some ''13:30''\<rparr>],
      interval_minutes = 60,
      workdays = [1, 2, 3, 4, 5],
      off_work_time = Some ''18:00'',
      off_work_reminder_enabled = True\<rparr>"

definition at_clock :: "date \<Rightarrow> int \<Rightarrow> int \<Rightarrow> int \<Rightarrow> datetime" where
  "at_clock d h m s = d * us_per_day + h * us_per_hour + m * us_per_minute + s * us_per_second"

text \<open>Friday 2026-11-06 and the three days after it, as ordinals.\<close>

definition friday :: date where "friday = 739926"
definition saturday :: date where "saturday = 739927"
definition sunday :: date where "sunday = 739928"
definition monday :: date where "monday = 739929"

section \<open>The configuration file\<close>

text \<open>
  What \<open>json.load\<close> returns and \<open>json.dump\<close> accepts. An object is a Python \<open>dict\<close>
  with string keys, kept as an association list in insertion order. A float is given by
  the exact value of the double; the non-finite ones are left out.
\<close>

datatype json =
    JNull
  | JBool bool
  | JInt int
  | JFloat rat
  | JStr string
  | JList "json list"
  | JObj "(string \<times> json) list"

type_synonym dict = "(string \<times> json) list"

text \<open>The truth value Python gives to \<open>not x\<close>, and to \<open>not d.get(k)\<close> for a missing key.\<close>

fun truthy :: "json \<Rightarrow> bool" where
  "truthy JNull = False"
| "truthy (JBool b) = b"
| "truthy (JInt n) = (n \<noteq> 0)"
| "truthy (JFloat r) = (r \<noteq> 0)"
| "truthy (JStr s) = (s \<noteq> [])"
| "truthy (JList xs) = (xs \<noteq> [])"
| "truthy (JObj kvs) = (kvs \<noteq> [])"

definition truthy_opt :: "json option \<Rightarrow> bool" where
  "truthy_opt v = (case v of None \<Rightarrow> False | Some x \<Rightarrow> truthy x)"

text \<open>\<open>d.get(k)\<close>, \<open>k in d\<close>, \<open>d.get(k, default)\<close> and \<open>d[k] = v\<close>\<close>

definition dict_get :: "dict \<Rightarrow> string \<Rightarrow> json option" where
  "dict_get d k = map_of d k"

definition dict_has :: "dict \<Rightarrow> string \<Rightarrow> bool" where
  "dict_has d k \<longleftrightarrow> map_of d k \<noteq> None"

definition dict_get_or :: "dict \<Rightarrow> string \<Rightarrow> json \<Rightarrow> json" where
  "dict_get_or d k dflt = (case map_of d k of None \<Rightarrow> dflt | Some v \<Rightarrow> v)"

fun dict_set :: "dict \<Rightarrow> string \<Rightarrow> json \<Rightarrow> dict" where
  "dict_set [] k v = [(k, v)]"
| "dict_set ((k', v') # d) k v = (if k' = k then (k, v) # d else (k', v') # dict_set d k v)"

definition period_json :: "string \<Rightarrow> string \<Rightarrow> json" where
  "period_json s e = JObj [(''start'', JStr s), (''end'', JStr e)]"

text \<open>\<open>self.default_config\<close> (lines 43-55)\<close>

definition default_work_periods :: json where
  "default_work_periods = JList [period_json ''09:00'' ''18:00'']"

definition default_block_periods :: json where
  "default_block_periods = JList [period_json ''12:00'' ''13:30'']"

definition default_config :: dict where
  "default_config =
     [(''work_periods'', default_work_periods),
      (''block_periods'', default_block_periods),
      (''interval_minutes'', JInt 60),
      (''auto_start'', JBool False),
      (''workdays'', JList [JInt 1, JInt 2, JInt 3, JInt 4, JInt 5]),
      (''off_work_time'', JStr ''18:00''),
      (''off_work_reminder_enabled'', JBool True)]"

text \<open>Lines 66-77: the dictionary built from a configuration in the old format.\<close>

definition legacy_config :: "dict \<Rightarrow> dict" where
  "legacy_config config =
     [(''work_periods'',
         JList [JObj [(''start'', dict_get_or config ''start_time'' (JStr ''09:00'')),
                      (''end'', dict_get_or config ''end_time'' (JStr ''18:00''))]]),
      (''block_periods'',
         JList [JObj [(''start'', dict_get_or config ''block_start'' (JStr ''12:00'')),
                      (''end'', dict_get_or config ''block_end'' (JStr ''13:30''))]]),
      (''interval_minutes'', dict_get_or config ''interval_minutes'' (JInt 60)),
      (''auto_start'', dict_get_or config ''auto_start'' (JBool False))]"

text \<open>Lines 79-81.\<close>

definition merge_defaults :: "dict \<Rightarrow> dict" where
  "merge_defaults config =
     foldl (\<lambda>c (key, v). if \<not> dict_has c key then dict_set c key v else c) config default_config"

text \<open>Lines 83-86.\<close>

definition ensure_periods :: "dict \<Rightarrow> dict" where
  "ensure_periods config =
     (let c1 = (if \<not> truthy_opt (dict_get config ''work_periods'')
                then dict_set config ''work_periods'' default_work_periods else config)
      in if \<not> truthy_opt (dict_get c1 ''block_periods'')
         then dict_set c1 ''block_periods'' default_block_periods else c1)"

text \<open>
  Lines 62-87, for the value that \<open>json.load\<close> returned. When that value is not a
  \<open>dict\<close> the block does not reach its \<open>return\<close>: \<open>in\<close> raises \<open>TypeError\<close> on
  \<open>None\<close>, a boolean or a number; on a string or a list either the item assignment of
  line 81 raises \<open>TypeError\<close> or a \<open>get\<close> raises \<open>AttributeError\<close>. The handler of
  line 88 catches every \<open>Exception\<close>, so the class does not matter to the caller.
\<close>

definition load_try :: "json \<Rightarrow> exn + json" where
  "load_try loaded =
     (case loaded of
        JObj config \<Rightarrow>
          Inr (JObj (ensure_periods (merge_defaults
            (if dict_has config ''start_time'' \<and> \<not> dict_has config ''work_periods''
             then legacy_config config else config))))
      | _ \<Rightarrow> Inl TypeError)"

text \<open>
  The file \<open>config.json\<close>: absent, present but not readable as JSON (\<open>open\<close> or
  \<open>json.load\<close> raises), or holding the text of a JSON value. Writing a value with
  \<open>json.dump\<close> and reading it back with \<open>json.load\<close> gives the value again; that is
  built into \<open>Content\<close>.
\<close>

datatype config_file = NoFile | Unreadable | Content json

text \<open>\<open>ConfigManager.load_config\<close> (lines 57-91)\<close>

definition load_config :: "config_file \<Rightarrow> json" where
  "load_config f =
     (case f of
        NoFile \<Rightarrow> JObj default_config
      | Unreadable \<Rightarrow> JObj default_config
      | Content loaded \<Rightarrow>
          (case load_try loaded of
             Inr config \<Rightarrow> config
           | Inl e \<Rightarrow> JObj default_config))"

text \<open>
  \<open>ConfigManager.save_config\<close> (lines 93-101). The environment decides whether the
  write succeeds, \<open>open\<close> fails (the file stays as it was) or \<open>json.dump\<close> fails after
  the file was truncated.
\<close>

datatype write_outcome = WriteOk | OpenFails | DumpFails

definition save_config :: "config_file \<Rightarrow> json \<Rightarrow> write_outcome \<Rightarrow> config_file \<times> bool" where
  "save_config f config w =
     (case w of
        WriteOk \<Rightarrow> (Content config, True)
      | OpenFails \<Rightarrow> (f, False)
      | DumpFails \<Rightarrow> (Unreadable, False))"

section \<open>The validation of the configuration window\<close>

text \<open>The contents of the widgets that \<open>validate_and_start\<close> reads.\<close>

record form =
  work_periods_widgets :: "(string \<times> string) list"
  block_periods_widgets :: "(string \<times> string) list"
  interval_entry :: string
  workdays_vars :: "bool list"
  off_work_time_entry :: string
  off_work_reminder_var :: bool
  auto_start_var :: bool

text \<open>
  The ways in which \<open>validate_and_start\<close> ends without saving: one of its six error
  dialogs, or the handler of line 576 for an exception raised on the way.
\<close>

datatype reject =
    WorkPeriodFormat
  | NoWorkPeriod
  | BlockPeriodFormat
  | BadInterval
  | NoWorkday
  | OffWorkFormat
  | StartFailed exn

text \<open>Lines 499-508 and 515-524; \<open>bad\<close> is the dialog of the loop.\<close>

fun check_periods :: "reject \<Rightarrow> (string \<times> string) list \<Rightarrow> reject + json list" where
  "check_periods bad [] = Inr []"
| "check_periods bad ((start_entry, end_entry) # widgets) =
     (let start_time = strip start_entry; end_time = strip end_entry
      in if start_time = [] \<or> end_time = [] then check_periods bad widgets
         else
           (case parse_time (Some start_time) of
              Inl e \<Rightarrow> Inl (StartFailed e)
            | Inr None \<Rightarrow> Inl bad
            | Inr (Some _) \<Rightarrow>
                (case parse_time (Some end_time) of
                   Inl e \<Rightarrow> Inl (StartFailed e)
                 | Inr None \<Rightarrow> Inl bad
                 | Inr (Some _) \<Rightarrow>
                     (case check_periods bad widgets of
                        Inl r \<Rightarrow> Inl r
                      | Inr periods \<Rightarrow> Inr (period_json start_time end_time # periods)))))"

text \<open>Lines 536-539.\<close>

definition selected_workdays :: "bool list \<Rightarrow> int list" where
  "selected_workdays vars = map (\<lambda>i. int i + 1) (filter (\<lambda>i. vars ! i) [0..<length vars])"

text \<open>Lines 552-560.\<close>

definition config_json ::
  "json list \<Rightarrow> json list \<Rightarrow> int \<Rightarrow> bool \<Rightarrow> int list \<Rightarrow> string \<Rightarrow> bool \<Rightarrow> json" where
  "config_json work block interval auto_start days off_work enabled =
     JObj [(''work_periods'', JList work),
           (''block_periods'', JList block),
           (''interval_minutes'', JInt interval),
           (''auto_start'', JBool auto_start),
           (''workdays'', JList (map JInt days)),
           (''off_work_time'', JStr (if off_work \<noteq> [] then off_work else ''18:00'')),
           (''off_work_reminder_enabled'', JBool enabled)]"

text \<open>
  Lines 497-560 of \<open>validate_and_start\<close>: the configuration that is handed to
  \<open>save_config\<close>, or the reason why nothing is saved.
\<close>

definition validate_and_start :: "form \<Rightarrow> reject + json" where
  "validate_and_start f =
     (case check_periods WorkPeriodFormat (work_periods_widgets f) of
        Inl r \<Rightarrow> Inl r
      | Inr work \<Rightarrow>
          if work = [] then Inl NoWorkPeriod
          else
            (case check_periods BlockPeriodFormat (block_periods_widgets f) of
               Inl r \<Rightarrow> Inl r
             | Inr block \<Rightarrow>
                 (case py_int (strip (interval_entry f)) of
                    Inl e \<Rightarrow> Inl BadInterval
                  | Inr interval \<Rightarrow>
                      if interval \<le> 0 then Inl BadInterval
                      else
                        (let days = selected_workdays (workdays_vars f);
                             off_work = strip (off_work_time_entry f)
                         in if days = [] then Inl NoWorkday
                            else
                              (case (if off_work \<noteq> [] then parse_time (Some off_work)
                                     else Inr None) of
                                 Inl e \<Rightarrow> Inl (StartFailed e)
                               | Inr parsed \<Rightarrow>
                                   if off_work \<noteq> [] \<and> parsed = None then Inl OffWorkFormat
                                   else Inr (config_json work block interval (auto_start_var f)
                                               days off_work (off_work_reminder_var f)))))))"

text \<open>A form as the window shows it for the default configuration, with the block period removed.\<close>

definition plain_form :: form where
  "plain_form =
     \<lparr>work_periods_widgets = [(''09:00'', ''18:00'')],
      block_periods_widgets = [],
      interval_entry = ''60'',
      workdays_vars = [True, True, True, True, True, False, False],
      off_work_time_entry = ''18:00'',
      off_work_reminder_var = True,
      auto_start_var = False\<rparr>"

text \<open>
  The timedelta that the floating-point computation of lines 809-811 approximates; it
  serves as the parameter \<open>fl\<close> in evaluated examples.
\<close>

definition exact_remaining :: "int \<Rightarrow> timedelta \<Rightarrow> timedelta" where
  "exact_remaining interval elapsed = td_minutes interval - elapsed"

text \<open>The default configuration with a block period whose start text has an hour of 2^31.\<close>

definition overflow_cfg :: config where
  "overflow_cfg = default_cfg\<lparr>block_periods :=
      [\<lparr>period_start = Some ''2147483648:00'', period_end = Some ''13:30''\<rparr>]\<rparr>"


text \<open>The state of a service that has already passed its first active pass.\<close>

definition running_state :: app_state where
  "running_state = initial_state\<lparr>is_first_start := False\<rparr>"

text \<open>
  Three passes with the default configuration: two inside the tolerance around Friday
  17:50 and one at the same clock time on the following Monday; and a state whose
  off-work latch was set on Friday.
\<close>

definition friday_trace :: "event list" where
  "friday_trace =
     [Tick default_cfg (at_clock friday 17 50 5),
      Tick default_cfg (at_clock friday 17 50 20),
      Tick default_cfg (at_clock monday 17 50 20)]"

definition latched_friday :: app_state where
  "latched_friday = running_state\<lparr>last_off_work_reminder_date := Some friday\<rparr>"

text \<open>Reading a configuration dictionary, for the statements about the file.\<close>

definition is_obj :: "json \<Rightarrow> bool" where
  "is_obj j = (case j of JObj _ \<Rightarrow> True | _ \<Rightarrow> False)"

definition block_list :: "json \<Rightarrow> json option" where
  "block_list cfg = (case cfg of JObj c \<Rightarrow> dict_get c ''block_periods'' | _ \<Rightarrow> None)"

definition set_block :: "json \<Rightarrow> json \<Rightarrow> json" where
  "set_block cfg v = (case cfg of JObj c \<Rightarrow> JObj (dict_set c ''block_periods'' v) | _ \<Rightarrow> cfg)"

text \<open>
  The configuration that \<open>plain_form\<close> validates to, and the form that shows the
  default configuration with its block period.
\<close>

definition plain_config :: json where
  "plain_config =
     config_json [period_json ''09:00'' ''18:00''] [] 60 False [1, 2, 3, 4, 5] ''18:00'' True"

definition full_form :: form where
  "full_form = plain_form\<lparr>block_periods_widgets := [(''12:00'', ''13:30'')]\<rparr>"

text \<open>The field ranges that every \<open>datetime.time\<close> object satisfies.\<close>

definition valid_time :: "pytime \<Rightarrow> bool" where
  "valid_time t \<longleftrightarrow> 0 \<le> hour t \<and> hour t < 24 \<and> 0 \<le> minute t \<and> minute t < 60
     \<and> 0 \<le> second t \<and> second t < 60 \<and> 0 \<le> microsecond t \<and> microsecond t < 1000000"

section \<open>Evaluation facts\<close>

lemma parse_0900:
  "parse_time (Some ''09:00'') = Inr (Some \<lparr>hour = 9, minute = 0, second = 0, microsecond = 0\<rparr>)"
  by code_simp

lemma parse_1800:
  "parse_time (Some ''18:00'') = Inr (Some \<lparr>hour = 18, minute = 0, second = 0, microsecond = 0\<rparr>)"
  by code_simp

lemma parse_1200:
  "parse_time (Some ''12:00'') = Inr (Some \<lparr>hour = 12, minute = 0, second = 0, microsecond = 0\<rparr>)"
  by code_simp

lemma parse_1330:
  "parse_time (Some ''13:30'') = Inr (Some \<lparr>hour = 13, minute = 30, second = 0, microsecond = 0\<rparr>)"
  by code_simp

lemma parse_too_big: "parse_time (Some ''2147483648:00'') = Inl OverflowError"
  by code_simp

section \<open>The time-window test\<close>

text \<open>
  Claim C3. For every window and every clock time: when \<open>start <= end\<close> the test
  \<open>time_in_range\<close> holds exactly if \<open>start <= t <= end\<close>; when \<open>start > end\<close> (the
  window wraps past midnight) it holds exactly if \<open>t >= start\<close> or \<open>t <= end\<close>; and
  both boundaries belong to the window.
\<close>

theorem time_in_range_inclusive:
  "(time_le s e \<longrightarrow> (time_in_range s e t \<longleftrightarrow> time_le s t \<and> time_le t e))
   \<and> (\<not> time_le s e \<longrightarrow> (time_in_range s e t \<longleftrightarrow> time_le s t \<or> time_le t e))
   \<and> time_in_range s e s \<and> time_in_range s e e"
  by (auto simp: time_in_range_def time_le_def)

theorem time_in_range_inclusive_witness:
  "time_le \<lparr>hour = 9, minute = 0, second = 0, microsecond = 0\<rparr>
           \<lparr>hour = 18, minute = 0, second = 0, microsecond = 0\<rparr>
   \<and> \<not> time_in_range \<lparr>hour = 9, minute = 0, second = 0, microsecond = 0\<rparr>
           \<lparr>hour = 18, minute = 0, second = 0, microsecond = 0\<rparr>
           \<lparr>hour = 20, minute = 15, second = 30, microsecond = 0\<rparr>
   \<and> \<not> time_le \<lparr>hour = 18, minute = 0, second = 0, microsecond = 0\<rparr>
           \<lparr>hour = 9, minute = 0, second = 0, microsecond = 0\<rparr>
   \<and> time_in_range \<lparr>hour = 18, minute = 0, second = 0, microsecond = 0\<rparr>
           \<lparr>hour = 9, minute = 0, second = 0, microsecond = 0\<rparr>
           \<lparr>hour = 20, minute = 15, second = 30, microsecond = 0\<rparr>"
  using
    time_in_range_inclusive
      [of "\<lparr>hour = 9, minute = 0, second = 0, microsecond = 0\<rparr>"
          "\<lparr>hour = 18, minute = 0, second = 0, microsecond = 0\<rparr>"
          "\<lparr>hour = 20, minute = 15, second = 30, microsecond = 0\<rparr>"]
    time_in_range_inclusive
      [of "\<lparr>hour = 18, minute = 0, second = 0, microsecond = 0\<rparr>"
          "\<lparr>hour = 9, minute = 0, second = 0, microsecond = 0\<rparr>"
          "\<lparr>hour = 20, minute = 15, second = 30, microsecond = 0\<rparr>"]
  by (simp add: time_le_def)

text \<open>
  The times that the service compares, those returned by \<open>parse_time\<close> and the clock
  time of \<open>now\<close>, have their fields in range, and on such times Python's ordering is
  the chronological one.
\<close>

lemma time_le_chronological:
  assumes "valid_time a" and "valid_time b"
  shows "time_le a b \<longleftrightarrow> us_of_time a \<le> us_of_time b"
  using assms
  unfolding valid_time_def time_le_def us_of_time_def us_per_second_def us_per_minute_def
    us_per_hour_def
  by (cases "hour a < hour b"; cases "hour a = hour b"; cases "minute a < minute b";
      cases "minute a = minute b"; cases "second a < second b"; cases "second a = second b")
     (simp_all; linarith)+

lemma dt_time_valid: "valid_time (dt_time now)"
proof -
  define u where "u = now mod 86400000000"
  have b: "0 \<le> u" "u < 86400000000" by (simp_all add: u_def)
  have "u div 3600000000 \<le> 86399999999 div 3600000000"
    using b by (intro zdiv_mono1) simp_all
  then have h: "0 \<le> u div 3600000000" "u div 3600000000 < 24"
    using b by (simp_all add: pos_imp_zdiv_nonneg_iff)
  show ?thesis
    using h
    by (simp add: valid_time_def dt_time_def time_of_us_def us_per_second_def us_per_minute_def
        us_per_hour_def us_per_day_def u_def)
qed

lemma parse_time_valid:
  "parse_time x = Inr (Some t) \<Longrightarrow> valid_time t \<and> second t = 0 \<and> microsecond t = 0"
  by (auto simp: parse_time_def parse_time_try_def datetime_time_def valid_time_def
      split: option.splits list.splits sum.splits if_splits)

section \<open>One pass of the service loop\<close>

lemma off_work_check_not_workday:
  "\<not> is_workday cfg now \<Longrightarrow> off_work_check cfg st now = Inr (st, [])"
  by (simp add: off_work_check_def)

lemma tick_not_workday:
  assumes "\<not> is_workday cfg now" and "work_periods cfg \<noteq> []"
    and "in_periods (block_periods cfg) (dt_time now) = Inr b"
    and "next_occurrence cfg now = Inr dt"
  shows "tick fl cfg st now =
     \<lparr>after = daily_reset (st\<lparr>next_reminder := Some dt\<rparr>) (dt_date now),
      popups = [], outcome = Completed\<rparr>"
  using assms by (simp add: tick_def off_work_check_not_workday regular_reminder_def)

lemma next_reminder_daily_reset: "next_reminder (daily_reset st d) = next_reminder st"
  by (simp add: daily_reset_def split: option.splits)

section \<open>The next reminder outside the active window\<close>

text \<open>
  Claim C5, as amended. With work period 09:00-18:00, block period 12:00-13:30, an
  interval of 60 minutes and the workdays Monday to Friday, a pass at Saturday 10:00 is
  not on a workday and its work-period start candidate is the next Monday at 09:00; but
  the end of the block period, Saturday 13:30, is a candidate too and is earlier, so
  \<open>next_reminder\<close> becomes Saturday 13:30, whatever the state was before.
\<close>

theorem saturday_next_is_block_end:
  "\<not> is_workday default_cfg (at_clock saturday 10 0 0)
   \<and> work_start_times default_cfg (at_clock saturday 10 0 0) = Inr [at_clock monday 9 0 0]
   \<and> next_reminder (after (tick fl default_cfg st (at_clock saturday 10 0 0)))
       = Some (at_clock saturday 13 30 0)"
proof -
  let ?now = "at_clock saturday 10 0 0"
  have wd: "\<not> is_workday default_cfg ?now" by code_simp
  have ws: "work_start_times default_cfg ?now = Inr [at_clock monday 9 0 0]" by code_simp
  have wp: "work_periods default_cfg \<noteq> []" by (simp add: default_cfg_def)
  have bl: "in_periods (block_periods default_cfg) (dt_time ?now) = Inr False" by code_simp
  have no: "next_occurrence default_cfg ?now = Inr (at_clock saturday 13 30 0)" by code_simp
  show ?thesis
    using wd ws by (simp add: tick_not_workday [OF wd wp bl no] next_reminder_daily_reset)
qed

text \<open>
  The claim as stated fails: started in its initial state, the service does not set
  \<open>next_reminder\<close> to Monday 09:00 at Saturday 10:00.
\<close>

theorem saturday_next_not_monday:
  "next_reminder (after (tick exact_remaining default_cfg initial_state (at_clock saturday 10 0 0)))
     \<noteq> Some (at_clock monday 9 0 0)"
  by code_simp

lemmas clock_defs = at_clock_def dt_date_def dt_time_def time_of_us_def py_weekday_def combine_def
  us_of_time_def td_minutes_def td_hours_def td_days_def friday_def saturday_def sunday_def
  monday_def us_per_second_def us_per_minute_def us_per_hour_def us_per_day_def

lemma tick_outside_window:
  assumes "work_periods cfg \<noteq> []"
    and "off_work_check cfg st now = Inr (st1, shown)"
    and "(if is_workday cfg now then in_periods (work_periods cfg) (dt_time now) else Inr False) = Inr w"
    and "in_periods (block_periods cfg) (dt_time now) = Inr b"
    and "\<not> (w \<and> \<not> b)"
    and "next_occurrence cfg now = Inr dt"
  shows "tick fl cfg st now =
     \<lparr>after = daily_reset (st1\<lparr>next_reminder := Some dt\<rparr>) (dt_date now),
      popups = shown, outcome = Completed\<rparr>"
  using assms by (auto simp: tick_def regular_reminder_def Let_def)

lemma friday_evening_off_work:
  "off_work_check default_cfg st (at_clock friday 19 0 0) = Inr (st, [])"
  by (simp add: off_work_check_def default_cfg_def parse_1800 Let_def is_workday_def clock_defs)

text \<open>
  Claim C6, at the input where the code departs from it. On Friday 19:00 with the default
  configuration, today's start 09:00 has passed; lines 822-823 move the candidate forward
  by one day without looking at the workdays, so the only work-period start candidate is
  Saturday 09:00, which is not a workday, and it becomes \<open>next_reminder\<close>.
\<close>

theorem friday_evening_candidate_is_saturday:
  "work_start_times default_cfg (at_clock friday 19 0 0) = Inr [at_clock saturday 9 0 0]
   \<and> \<not> is_workday default_cfg (at_clock saturday 9 0 0)
   \<and> next_reminder (after (tick fl default_cfg st (at_clock friday 19 0 0)))
        = Some (at_clock saturday 9 0 0)"
proof -
  let ?now = "at_clock friday 19 0 0"
  have ws: "work_start_times default_cfg ?now = Inr [at_clock saturday 9 0 0]" by code_simp
  have sat: "\<not> is_workday default_cfg (at_clock saturday 9 0 0)" by code_simp
  have wp: "work_periods default_cfg \<noteq> []" by (simp add: default_cfg_def)
  have w: "(if is_workday default_cfg ?now
            then in_periods (work_periods default_cfg) (dt_time ?now) else Inr False) = Inr False"
    by code_simp
  have b: "in_periods (block_periods default_cfg) (dt_time ?now) = Inr False" by code_simp
  have no: "next_occurrence default_cfg ?now = Inr (at_clock saturday 9 0 0)" by code_simp
  have "tick fl default_cfg st ?now =
      \<lparr>after = daily_reset (st\<lparr>next_reminder := Some (at_clock saturday 9 0 0)\<rparr>) (dt_date ?now),
       popups = [], outcome = Completed\<rparr>"
    by (rule tick_outside_window [OF wp friday_evening_off_work w b _ no]) simp
  then show ?thesis using ws sat by (simp add: next_reminder_daily_reset)
qed

section \<open>Malformed time texts\<close>

text \<open>
  \<open>parse_time\<close> returns \<open>None\<close> for every failure that its handler catches; the one
  exception that gets past it is the \<open>OverflowError\<close> of \<open>datetime.time\<close>. A period
  with a text that parses to \<open>None\<close> matches no clock time and the loop moves on.
\<close>

lemma py_int_raises: "py_int s = Inl e \<Longrightarrow> e = ValueError"
  by (simp add: py_int_def Let_def split: if_splits)

lemma datetime_time_raises: "datetime_time h m = Inl e \<Longrightarrow> e = OverflowError \<or> e = ValueError"
  by (simp add: datetime_time_def split: if_splits)

lemma parse_time_try_raises:
  "parse_time_try x = Inl e \<Longrightarrow> e = OverflowError \<or> e = ValueError \<or> e = AttributeError"
  by (auto simp: parse_time_try_def split: option.splits list.splits sum.splits
      dest: py_int_raises datetime_time_raises)

lemma parse_time_raises: "parse_time x = Inl e \<Longrightarrow> e = OverflowError"
  by (auto simp: parse_time_def split: sum.splits if_splits dest: parse_time_try_raises)

lemma in_periods_matches:
  "in_periods ps t = Inr b \<Longrightarrow> b \<longleftrightarrow> (\<exists>p \<in> set ps. window_matches p t)"
proof (induction ps arbitrary: b)
  case Nil
  then show ?case by simp
next
  case (Cons p ps)
  then show ?case
    by (auto simp: window_matches_def split: sum.splits option.splits if_splits)
qed

lemma unparsed_window_skipped:
  assumes "parse_time (period_start p) = Inr a" and "parse_time (period_end p) = Inr b"
    and "a = None \<or> b = None"
  shows "\<not> window_matches p t \<and> in_periods (p # ps) t = in_periods ps t"
  using assms by (auto simp: window_matches_def split: option.splits)

lemma overflow_needs_big_number:
  assumes "parse_time_try x = Inl OverflowError"
  shows "\<exists>s a b h m. x = Some s \<and> split_colon s = [a, b] \<and> py_int a = Inr h \<and> py_int b = Inr m
           \<and> (\<not> fits_c_int h \<or> \<not> fits_c_int m)"
  using assms
  by (auto simp: parse_time_try_def datetime_time_def
      split: option.splits list.splits sum.splits if_splits dest: py_int_raises)

lemma off_work_check_default_returns:
  "off_work_time cfg = Some ''18:00'' \<Longrightarrow> \<exists>st1 shown. off_work_check cfg st now = Inr (st1, shown)"
  by (simp add: off_work_check_def parse_1800 Let_def)

lemma in_periods_default_work:
  "\<exists>w. in_periods [\<lparr>period_start = Some ''09:00'', period_end = Some ''18:00''\<rparr>] t = Inr w"
  by (auto simp: parse_0900 parse_1800)

text \<open>
  Claim C9, at the input where the code departs from it. The text \<open>2147483648:00\<close> is
  out of range, yet \<open>parse_time\<close> raises instead of returning \<open>None\<close>, and a pass of
  the service loop over a configuration with that text in a block period ends in the
  exception handler, at every clock reading and in every state.
\<close>

theorem overflowing_text_aborts_pass:
  "parse_time (Some ''2147483648:00'') = Inl OverflowError
   \<and> outcome (tick fl overflow_cfg st now) = Raised OverflowError"
proof -
  obtain st1 shown where o: "off_work_check overflow_cfg st now = Inr (st1, shown)"
    using off_work_check_default_returns [of overflow_cfg st now]
    by (auto simp: overflow_cfg_def default_cfg_def)
  have wps: "work_periods overflow_cfg =
      [\<lparr>period_start = Some ''09:00'', period_end = Some ''18:00''\<rparr>]"
    by (simp add: overflow_cfg_def default_cfg_def)
  obtain w where w: "(if is_workday overflow_cfg now
      then in_periods (work_periods overflow_cfg) (dt_time now) else Inr False) = Inr w"
    using in_periods_default_work [of "dt_time now"] unfolding wps
    by (cases "is_workday overflow_cfg now") auto
  have b: "in_periods (block_periods overflow_cfg) (dt_time now) = Inl OverflowError"
    by (simp add: overflow_cfg_def parse_too_big)
  have wp: "work_periods overflow_cfg \<noteq> []"
    by (simp add: overflow_cfg_def default_cfg_def)
  show ?thesis
    using wp by (simp add: tick_def o w b parse_too_big)
qed

section \<open>The regular reminder\<close>



text \<open>A pass that does not raise, taken apart.\<close>

lemma tick_cases:
  assumes "\<forall>e. outcome (tick fl cfg st now) \<noteq> Raised e"
  shows "(work_periods cfg = [] \<and> tick fl cfg st now = \<lparr>after = st, popups = [], outcome = Skipped\<rparr>)
       \<or> (\<exists>st1 shown1 w b st2 shown2.
             work_periods cfg \<noteq> []
           \<and> off_work_check cfg st now = Inr (st1, shown1)
           \<and> (w \<longleftrightarrow> is_workday cfg now \<and> (\<exists>p \<in> set (work_periods cfg). window_matches p (dt_time now)))
           \<and> (b \<longleftrightarrow> (\<exists>p \<in> set (block_periods cfg). window_matches p (dt_time now)))
           \<and> regular_reminder fl cfg st1 now w b = Inr (st2, shown2)
           \<and> tick fl cfg st now =
               \<lparr>after = daily_reset st2 (dt_date now), popups = shown1 @ shown2,
                outcome = Completed\<rparr>)"
proof (cases "work_periods cfg = []")
  case True
  then show ?thesis by (simp add: tick_def)
next
  case False
  from assms False obtain st1 shown1 where o: "off_work_check cfg st now = Inr (st1, shown1)"
    by (cases "off_work_check cfg st now") (auto simp: tick_def)
  from assms False o obtain w where
    w: "(if is_workday cfg now then in_periods (work_periods cfg) (dt_time now) else Inr False) = Inr w"
    by (cases "if is_workday cfg now then in_periods (work_periods cfg) (dt_time now) else Inr False")
       (auto simp: tick_def)
  from assms False o w obtain b where b: "in_periods (block_periods cfg) (dt_time now) = Inr b"
    by (cases "in_periods (block_periods cfg) (dt_time now)") (auto simp: tick_def)
  from assms False o w b obtain st2 shown2 where
    r: "regular_reminder fl cfg st1 now w b = Inr (st2, shown2)"
    by (cases "regular_reminder fl cfg st1 now w b") (auto simp: tick_def)
  have w': "w \<longleftrightarrow> is_workday cfg now \<and> (\<exists>p \<in> set (work_periods cfg). window_matches p (dt_time now))"
    using w in_periods_matches [of "work_periods cfg" "dt_time now" w]
    by (auto split: if_splits)
  have b': "b \<longleftrightarrow> (\<exists>p \<in> set (block_periods cfg). window_matches p (dt_time now))"
    using b by (rule in_periods_matches)
  have "tick fl cfg st now =
      \<lparr>after = daily_reset st2 (dt_date now), popups = shown1 @ shown2, outcome = Completed\<rparr>"
    using False o w b r by (simp add: tick_def)
  with False o w' b' r show ?thesis by blast
qed





section \<open>The first pass after the start\<close>






section \<open>The off-work reminder\<close>

lemma dt_date_mono: "a \<le> b \<Longrightarrow> dt_date a \<le> dt_date b"
  by (simp add: dt_date_def us_per_day_def zdiv_mono1)

lemma off_work_check_latch:
  assumes "off_work_check cfg st now = Inr (st1, shown)"
  shows "(shown = [] \<and> st1 = st)
       \<or> (shown = [OffWork] \<and> last_off_work_reminder_date st \<noteq> Some (dt_date now)
            \<and> st1 = st\<lparr>last_off_work_reminder_date := Some (dt_date now)\<rparr>)"
  using assms
  by (auto simp: off_work_check_def Let_def split: if_splits sum.splits option.splits)

lemma regular_reminder_latch:
  assumes "regular_reminder fl cfg st now w b = Inr (st2, shown)"
  shows "last_off_work_reminder_date st2 = last_off_work_reminder_date st
       \<and> filter (\<lambda>p. p = OffWork) shown = []"
  using assms
  by (auto simp: regular_reminder_def Let_def split: if_splits sum.splits option.splits)

lemma daily_reset_latch:
  "last_off_work_reminder_date (daily_reset st today) =
     (case last_off_work_reminder_date st of
        None \<Rightarrow> None
      | Some d \<Rightarrow> if d < today then None else Some d)"
  by (simp add: daily_reset_def split: option.splits)

text \<open>What one pass does to the once-per-day latch, however the pass ends.\<close>

lemma tick_latch:
  "length (filter (\<lambda>p. p = OffWork) (popups (tick fl cfg st now))) \<le> 1
   \<and> (OffWork \<in> set (popups (tick fl cfg st now)) \<longrightarrow>
        last_off_work_reminder_date st \<noteq> Some (dt_date now)
        \<and> last_off_work_reminder_date (after (tick fl cfg st now)) = Some (dt_date now))
   \<and> (last_off_work_reminder_date st = Some (dt_date now) \<longrightarrow>
        last_off_work_reminder_date (after (tick fl cfg st now)) = Some (dt_date now))"
proof (cases "off_work_check cfg st now")
  case (Inl e)
  then show ?thesis by (simp add: tick_def)
next
  case (Inr x)
  then obtain st1 shown1 where o: "off_work_check cfg st now = Inr (st1, shown1)"
    by (cases x) simp
  from off_work_check_latch [OF o] show ?thesis
    by (auto simp: tick_def o daily_reset_latch filter_empty_conv split: sum.splits if_splits
        dest!: regular_reminder_latch)
qed

lemma off_work_count_append:
  "off_work_count d (map (\<lambda>p. (now, p)) ps @ rest) =
     (if dt_date now = d then length (filter (\<lambda>p. p = OffWork) ps) else 0)
       + off_work_count d rest"
  by (induction ps) (auto simp: off_work_count_def)

lemma off_work_count_Nil: "off_work_count d [] = 0"
  by (simp add: off_work_count_def)

lemma no_ticks_no_count:
  "\<forall>t \<in> set (tick_times evs). dt_date t \<noteq> d \<Longrightarrow> off_work_count d (run fl st evs) = 0"
  by (induction fl st evs rule: run.induct)
     (simp_all add: off_work_count_append off_work_count_Nil Let_def)

lemma latched_no_count:
  "sorted (tick_times evs) \<Longrightarrow> \<forall>t \<in> set (tick_times evs). D \<le> dt_date t
     \<Longrightarrow> last_off_work_reminder_date st = Some D
     \<Longrightarrow> off_work_count D (run fl st evs) = 0"
proof (induction fl st evs rule: run.induct)
  case (1 fl st)
  then show ?case by (simp add: off_work_count_Nil)
next
  case (2 fl st cfg now evs)
  show ?case
  proof (cases "dt_date now = D")
    case True
    with "2.prems" tick_latch [of fl cfg st now]
    have a: "OffWork \<notin> set (popups (tick fl cfg st now))"
      and b: "last_off_work_reminder_date (after (tick fl cfg st now)) = Some D"
      by auto
    from a have "filter (\<lambda>p. p = OffWork) (popups (tick fl cfg st now)) = []"
      by (auto simp: filter_empty_conv)
    moreover have "off_work_count D (run fl (after (tick fl cfg st now)) evs) = 0"
      using "2.IH" [OF refl] "2.prems" b by simp
    ultimately show ?thesis by (simp add: off_work_count_append Let_def)
  next
    case False
    with "2.prems" have lt: "D < dt_date now" by auto
    have "\<forall>t \<in> set (tick_times evs). dt_date t \<noteq> D"
    proof
      fix t assume "t \<in> set (tick_times evs)"
      with "2.prems"(1) have "now \<le> t" by auto
      then have "dt_date now \<le> dt_date t" by (rule dt_date_mono)
      with lt show "dt_date t \<noteq> D" by simp
    qed
    then have "off_work_count D (run fl (after (tick fl cfg st now)) evs) = 0"
      by (rule no_ticks_no_count)
    with False show ?thesis by (simp add: off_work_count_append Let_def)
  qed
next
  case (3 fl st t evs)
  then show ?case by simp
next
  case (4 fl st evs)
  then show ?case by simp
qed

lemma off_work_at_most_once:
  "sorted (tick_times evs) \<Longrightarrow> off_work_count d (run fl st evs) \<le> 1"
proof (induction fl st evs rule: run.induct)
  case (1 fl st)
  then show ?case by (simp add: off_work_count_Nil)
next
  case (2 fl st cfg now evs)
  let ?r = "tick fl cfg st now"
  from "2.prems" have s: "sorted (tick_times evs)" by simp
  have ih: "off_work_count d (run fl (after ?r) evs) \<le> 1"
    using "2.IH" [OF refl s] .
  show ?case
  proof (cases "dt_date now = d \<and> OffWork \<in> set (popups ?r)")
    case True
    with tick_latch [of fl cfg st now]
    have one: "length (filter (\<lambda>p. p = OffWork) (popups ?r)) \<le> 1"
      and l: "last_off_work_reminder_date (after ?r) = Some d"
      by auto
    have "\<forall>t \<in> set (tick_times evs). d \<le> dt_date t"
    proof
      fix t assume "t \<in> set (tick_times evs)"
      with "2.prems" have "now \<le> t" by auto
      then have "dt_date now \<le> dt_date t" by (rule dt_date_mono)
      with True show "d \<le> dt_date t" by simp
    qed
    then have "off_work_count d (run fl (after ?r) evs) = 0"
      using s l by (intro latched_no_count)
    with one show ?thesis by (simp add: off_work_count_append Let_def)
  next
    case False
    then have "(if dt_date now = d then length (filter (\<lambda>p. p = OffWork) (popups ?r)) else 0) = 0"
      by (auto simp: filter_empty_conv)
    with ih show ?thesis by (simp add: off_work_count_append Let_def)
  qed
next
  case (3 fl st t evs)
  then show ?case by simp
next
  case (4 fl st evs)
  then show ?case by simp
qed

lemma parse_empty: "parse_time (Some []) = Inr None"
  by code_simp

lemma off_work_fires:
  assumes "work_periods cfg \<noteq> []" and "is_workday cfg now" and "off_work_reminder_enabled cfg"
    and "parse_time (off_work_time cfg) = Inr (Some t)"
    and "\<bar>now - (combine (dt_date now) t - td_minutes 10)\<bar> \<le> 30 * us_per_second"
    and "last_off_work_reminder_date st \<noteq> Some (dt_date now)"
  shows "OffWork \<in> set (popups (tick fl cfg st now))"
proof -
  from assms(4) have "off_work_time cfg \<noteq> Some []" by (auto simp: parse_empty)
  with assms have "off_work_check cfg st now =
      Inr (st\<lparr>last_off_work_reminder_date := Some (dt_date now)\<rparr>, [OffWork])"
    by (simp add: off_work_check_def Let_def)
  with assms(1) show ?thesis
    by (auto simp: tick_def split: sum.splits)
qed

lemma latch_cleared_next_day:
  assumes "last_off_work_reminder_date st = Some d0" and "d0 < dt_date now"
    and "outcome (tick fl cfg st now) = Completed"
  shows "last_off_work_reminder_date (after (tick fl cfg st now)) = None
       \<or> last_off_work_reminder_date (after (tick fl cfg st now)) = Some (dt_date now)"
proof -
  from assms(3) have nr: "\<forall>e. outcome (tick fl cfg st now) \<noteq> Raised e" by simp
  from tick_cases [OF nr] assms(3) obtain st1 shown1 w b st2 shown2 where
        o: "off_work_check cfg st now = Inr (st1, shown1)"
    and r: "regular_reminder fl cfg st1 now w b = Inr (st2, shown2)"
    and t: "tick fl cfg st now =
             \<lparr>after = daily_reset st2 (dt_date now), popups = shown1 @ shown2,
              outcome = Completed\<rparr>"
    by auto
  from off_work_check_latch [OF o] regular_reminder_latch [OF r] assms(1,2)
  show ?thesis by (auto simp: t daily_reset_latch)
qed

text \<open>
  Claim C4. Over any sequence of passes, popup answers and configuration saves in which
  the clock readings of the passes do not decrease, the off-work popup is shown at most
  once on each calendar date, however often a pass falls inside the 30-second tolerance.
  Once the date has advanced past the latch, a completed pass leaves the latch cleared
  or set to the new date, and a pass on a later date that meets the off-work condition
  shows the popup again.
\<close>

theorem off_work_once_per_date:
  "(sorted (tick_times evs) \<longrightarrow> off_work_count d (run fl st evs) \<le> 1)
   \<and> (last_off_work_reminder_date st = Some d0 \<and> d0 < dt_date now
        \<and> outcome (tick fl cfg st now) = Completed \<longrightarrow>
          last_off_work_reminder_date (after (tick fl cfg st now)) = None
        \<or> last_off_work_reminder_date (after (tick fl cfg st now)) = Some (dt_date now))
   \<and> (work_periods cfg \<noteq> [] \<and> is_workday cfg now \<and> off_work_reminder_enabled cfg
        \<and> parse_time (off_work_time cfg) = Inr (Some t)
        \<and> \<bar>now - (combine (dt_date now) t - td_minutes 10)\<bar> \<le> 30 * us_per_second
        \<and> last_off_work_reminder_date st \<noteq> Some (dt_date now) \<longrightarrow>
          OffWork \<in> set (popups (tick fl cfg st now)))"
  using off_work_at_most_once [of evs d fl st] latch_cleared_next_day [of st d0 now fl cfg]
    off_work_fires [of cfg now t st fl]
  by blast


theorem off_work_once_per_date_witness:
  "sorted (tick_times friday_trace)
   \<and> off_work_count friday (run exact_remaining initial_state friday_trace) \<le> 1
   \<and> off_work_count friday (run exact_remaining initial_state friday_trace) = 1
   \<and> off_work_count monday (run exact_remaining initial_state friday_trace) = 1
   \<and> last_off_work_reminder_date latched_friday = Some friday
   \<and> friday < dt_date (at_clock monday 17 50 20)
   \<and> outcome (tick exact_remaining default_cfg latched_friday (at_clock monday 17 50 20)) = Completed
   \<and> (last_off_work_reminder_date
         (after (tick exact_remaining default_cfg latched_friday (at_clock monday 17 50 20))) = None
       \<or> last_off_work_reminder_date
         (after (tick exact_remaining default_cfg latched_friday (at_clock monday 17 50 20)))
           = Some (dt_date (at_clock monday 17 50 20)))
   \<and> OffWork \<in> set (popups (tick exact_remaining default_cfg latched_friday (at_clock monday 17 50 20)))"
proof -
  let ?now = "at_clock monday 17 50 20"
  let ?t = "\<lparr>hour = 18, minute = 0, second = 0, microsecond = 0\<rparr>"
  note p1 = off_work_once_per_date
    [of friday_trace friday exact_remaining initial_state]
  note p2 = off_work_once_per_date
    [of "[]" friday exact_remaining latched_friday friday ?now default_cfg ?t]
  have s: "sorted (tick_times friday_trace)" by code_simp
  have c1: "off_work_count friday (run exact_remaining initial_state friday_trace) = 1"
    by code_simp
  have c2: "off_work_count monday (run exact_remaining initial_state friday_trace) = 1"
    by code_simp
  have l: "last_off_work_reminder_date latched_friday = Some friday" by code_simp
  have d: "friday < dt_date ?now" by code_simp
  have o: "outcome (tick exact_remaining default_cfg latched_friday ?now) = Completed"
    by code_simp
  have wp: "work_periods default_cfg \<noteq> []" by (simp add: default_cfg_def)
  have wd: "is_workday default_cfg ?now" by code_simp
  have en: "off_work_reminder_enabled default_cfg" by (simp add: default_cfg_def)
  have pt: "parse_time (off_work_time default_cfg) = Inr (Some ?t)"
    by (simp add: default_cfg_def parse_1800)
  have df: "\<bar>?now - (combine (dt_date ?now) ?t - td_minutes 10)\<bar> \<le> 30 * us_per_second"
    by code_simp
  have nl: "last_off_work_reminder_date latched_friday \<noteq> Some (dt_date ?now)" by code_simp
  from p1 s have "off_work_count friday (run exact_remaining initial_state friday_trace) \<le> 1"
    by blast
  moreover from p2 l d o
  have "last_off_work_reminder_date (after (tick exact_remaining default_cfg latched_friday ?now)) = None
      \<or> last_off_work_reminder_date (after (tick exact_remaining default_cfg latched_friday ?now))
          = Some (dt_date ?now)"
    by blast
  moreover from p2 wp wd en pt df nl
  have "OffWork \<in> set (popups (tick exact_remaining default_cfg latched_friday ?now))"
    by blast
  ultimately show ?thesis using s c1 c2 l d o by blast
qed

section \<open>Loading the configuration\<close>

lemma dict_has_set: "dict_has (dict_set d k v) k' \<longleftrightarrow> k' = k \<or> dict_has d k'"
  by (induction d) (auto simp: dict_has_def split: if_splits)

lemma dict_get_set: "dict_get (dict_set d k v) k' = (if k' = k then Some v else dict_get d k')"
  by (induction d) (auto simp: dict_get_def split: if_splits)

lemma dict_has_get: "dict_has d k \<longleftrightarrow> dict_get d k \<noteq> None"
  by (simp add: dict_has_def dict_get_def)

lemma merge_step_keeps:
  "dict_has c k \<Longrightarrow>
   dict_has (foldl (\<lambda>c (key, v). if \<not> dict_has c key then dict_set c key v else c) c ds) k"
  by (induction ds arbitrary: c) (auto simp: dict_has_set)

lemma merge_step_adds:
  "k \<in> fst ` set ds \<Longrightarrow>
   dict_has (foldl (\<lambda>c (key, v). if \<not> dict_has c key then dict_set c key v else c) c ds) k"
proof (induction ds arbitrary: c)
  case Nil
  then show ?case by simp
next
  case (Cons p ds)
  obtain key v where p: "p = (key, v)" by (cases p)
  show ?case
  proof (cases "k = key")
    case True
    have "dict_has (if \<not> dict_has c key then dict_set c key v else c) key"
      by (simp add: dict_has_set)
    then show ?thesis using True p by (simp add: merge_step_keeps)
  next
    case False
    with Cons.prems p have "k \<in> fst ` set ds" by auto
    then show ?thesis using Cons.IH p by simp
  qed
qed

lemma merge_defaults_has:
  "k \<in> set (map fst default_config) \<Longrightarrow> dict_has (merge_defaults c) k"
  unfolding merge_defaults_def by (rule merge_step_adds) simp

lemma ensure_periods_has: "dict_has c k \<Longrightarrow> dict_has (ensure_periods c) k"
  by (simp add: ensure_periods_def Let_def dict_has_set)

lemma default_periods_truthy:
  "truthy default_work_periods" "truthy default_block_periods"
  "default_work_periods \<noteq> JList []" "default_block_periods \<noteq> JList []"
  by (simp_all add: default_work_periods_def default_block_periods_def)

lemma ensure_periods_truthy:
  "truthy_opt (dict_get (ensure_periods c) ''work_periods'')
   \<and> truthy_opt (dict_get (ensure_periods c) ''block_periods'')"
  by (simp add: ensure_periods_def Let_def dict_get_set truthy_opt_def default_periods_truthy)

lemma truthy_opt_not_empty: "truthy_opt v \<Longrightarrow> v \<noteq> Some (JList [])"
  by (auto simp: truthy_opt_def)

lemma default_config_fixed: "ensure_periods (merge_defaults default_config) = default_config"
  by code_simp

lemma load_try_obj:
  "load_try (JObj c) = Inr (JObj (ensure_periods (merge_defaults
     (if dict_has c ''start_time'' \<and> \<not> dict_has c ''work_periods'' then legacy_config c else c))))"
  by (simp add: load_try_def)

lemma load_try_not_obj: "\<not> is_obj j \<Longrightarrow> load_try j = Inl TypeError"
  by (cases j) (simp_all add: load_try_def is_obj_def)

lemma load_config_shape:
  "load_config f = JObj default_config
   \<or> (\<exists>c. load_config f = JObj (ensure_periods (merge_defaults c)))"
proof (cases f)
  case (Content j)
  then show ?thesis
    by (cases j) (auto simp: load_config_def load_try_def)
qed (simp_all add: load_config_def)

text \<open>
  Claim C10. Whatever the file holds, \<open>load_config\<close> returns a dictionary that has
  every key of the default configuration and whose \<open>work_periods\<close> and
  \<open>block_periods\<close> are neither empty nor otherwise false; when the file is absent,
  cannot be read or parsed, or does not hold a dictionary, the result is the default
  configuration. The function has no exceptional result.
\<close>

theorem load_config_complete:
  "(\<exists>d. load_config f = JObj d
        \<and> (\<forall>k \<in> set (map fst default_config). dict_has d k)
        \<and> truthy_opt (dict_get d ''work_periods'') \<and> dict_get d ''work_periods'' \<noteq> Some (JList [])
        \<and> truthy_opt (dict_get d ''block_periods'') \<and> dict_get d ''block_periods'' \<noteq> Some (JList []))
   \<and> (f = NoFile \<or> f = Unreadable \<or> (\<exists>j. f = Content j \<and> \<not> is_obj j)
        \<longrightarrow> load_config f = JObj default_config)"
proof -
  have shape: "\<exists>c. load_config f = JObj (ensure_periods (merge_defaults c))"
    using load_config_shape [of f] default_config_fixed by metis
  then obtain c where c: "load_config f = JObj (ensure_periods (merge_defaults c))" ..
  let ?d = "ensure_periods (merge_defaults c)"
  have keys: "\<forall>k \<in> set (map fst default_config). dict_has ?d k"
    by (intro ballI ensure_periods_has merge_defaults_has)
  have first: "\<exists>d. load_config f = JObj d
        \<and> (\<forall>k \<in> set (map fst default_config). dict_has d k)
        \<and> truthy_opt (dict_get d ''work_periods'') \<and> dict_get d ''work_periods'' \<noteq> Some (JList [])
        \<and> truthy_opt (dict_get d ''block_periods'') \<and> dict_get d ''block_periods'' \<noteq> Some (JList [])"
    using c keys ensure_periods_truthy [of "merge_defaults c"]
    by (intro exI [of _ ?d]) (simp add: truthy_opt_not_empty)
  have second: "f = NoFile \<or> f = Unreadable \<or> (\<exists>j. f = Content j \<and> \<not> is_obj j)
        \<longrightarrow> load_config f = JObj default_config"
    by (auto simp: load_config_def load_try_not_obj)
  from first second show ?thesis by (rule conjI)
qed

theorem load_config_complete_witness:
  "(\<exists>d. load_config (Content (JObj [(''work_periods'', JList [])])) = JObj d
        \<and> dict_has d ''off_work_reminder_enabled''
        \<and> truthy_opt (dict_get d ''work_periods''))
   \<and> load_config Unreadable = JObj default_config
   \<and> load_config (Content (JList [])) = JObj default_config"
proof -
  have k: "''off_work_reminder_enabled'' \<in> set (map fst default_config)"
    by (simp add: default_config_def)
  have n: "\<not> is_obj (JList [])" by (simp add: is_obj_def)
  from load_config_complete [of "Content (JObj [(''work_periods'', JList [])])"] k
  have "\<exists>d. load_config (Content (JObj [(''work_periods'', JList [])])) = JObj d
        \<and> dict_has d ''off_work_reminder_enabled''
        \<and> truthy_opt (dict_get d ''work_periods'')"
    by blast
  moreover from load_config_complete [of Unreadable]
  have "load_config Unreadable = JObj default_config" by blast
  moreover from load_config_complete [of "Content (JList [])"] n
  have "load_config (Content (JList [])) = JObj default_config" by blast
  ultimately show ?thesis by blast
qed

section \<open>Saving a validated configuration and loading it again\<close>

lemma validate_shape:
  assumes "validate_and_start f = Inr cfg"
  shows "\<exists>work block interval days off_work.
           work \<noteq> []
         \<and> cfg = config_json work block interval (auto_start_var f) days off_work
                   (off_work_reminder_var f)"
proof -
  obtain work where w: "check_periods WorkPeriodFormat (work_periods_widgets f) = Inr work"
    using assms
    by (cases "check_periods WorkPeriodFormat (work_periods_widgets f)")
       (simp_all add: validate_and_start_def)
  have ne: "work \<noteq> []"
    using assms w by (auto simp: validate_and_start_def split: if_splits)
  obtain block where b: "check_periods BlockPeriodFormat (block_periods_widgets f) = Inr block"
    using assms w ne
    by (cases "check_periods BlockPeriodFormat (block_periods_widgets f)")
       (simp_all add: validate_and_start_def)
  obtain interval where i: "py_int (strip (interval_entry f)) = Inr interval"
    using assms w ne b
    by (cases "py_int (strip (interval_entry f))") (simp_all add: validate_and_start_def)
  have "cfg = config_json work block interval (auto_start_var f)
          (selected_workdays (workdays_vars f)) (strip (off_work_time_entry f))
          (off_work_reminder_var f)"
    using assms w ne b i
    by (simp add: validate_and_start_def Let_def split: if_splits sum.splits)
  with ne show ?thesis by blast
qed

lemma load_saved_config:
  assumes "work \<noteq> []"
  shows "load_config (Content (config_json work block interval a days off en)) =
     (if block = []
      then set_block (config_json work block interval a days off en) default_block_periods
      else config_json work block interval a days off en)"
  using assms
  by (simp add: load_config_def load_try_def config_json_def set_block_def dict_has_def
      merge_defaults_def default_config_def ensure_periods_def Let_def dict_get_def
      truthy_opt_def)

lemma block_list_config_json:
  "block_list (config_json work block interval a days off en) = Some (JList block)"
  by (simp add: block_list_def config_json_def dict_get_def)

text \<open>
  Claim C7, as amended. A configuration accepted by \<open>validate_and_start\<close> and written
  successfully by \<open>save_config\<close> is returned unchanged by \<open>load_config\<close> when its
  list of block periods is not empty; when that list is empty, \<open>load_config\<close> returns
  the configuration with \<open>block_periods\<close> replaced by the default block period and all
  other fields unchanged.
\<close>

theorem save_then_load:
  assumes "validate_and_start f = Inr cfg"
  shows "fst (save_config old cfg WriteOk) = Content cfg
       \<and> (block_list cfg \<noteq> Some (JList []) \<longrightarrow>
            load_config (fst (save_config old cfg WriteOk)) = cfg)
       \<and> (block_list cfg = Some (JList []) \<longrightarrow>
            load_config (fst (save_config old cfg WriteOk))
              = set_block cfg default_block_periods)"
proof -
  from validate_shape [OF assms] obtain work block interval days off_work where
    w: "work \<noteq> []" and
    c: "cfg = config_json work block interval (auto_start_var f) days off_work
              (off_work_reminder_var f)"
    by blast
  have s: "fst (save_config old cfg WriteOk) = Content cfg"
    by (simp add: save_config_def)
  have l: "load_config (Content cfg) =
      (if block = [] then set_block cfg default_block_periods else cfg)"
    unfolding c by (rule load_saved_config [OF w])
  have b: "block_list cfg = Some (JList block)"
    unfolding c by (rule block_list_config_json)
  show ?thesis by (simp add: s l b)
qed

theorem save_then_load_witness:
  "validate_and_start full_form = Inr (JObj default_config)
   \<and> load_config (fst (save_config NoFile (JObj default_config) WriteOk)) = JObj default_config
   \<and> validate_and_start plain_form = Inr plain_config
   \<and> load_config (fst (save_config NoFile plain_config WriteOk))
       = set_block plain_config default_block_periods"
proof -
  have v1: "validate_and_start full_form = Inr (JObj default_config)" by code_simp
  have b1: "block_list (JObj default_config) \<noteq> Some (JList [])" by code_simp
  have v2: "validate_and_start plain_form = Inr plain_config" by code_simp
  have b2: "block_list plain_config = Some (JList [])" by code_simp
  from save_then_load [OF v1, of NoFile] b1 save_then_load [OF v2, of NoFile] b2 v1 v2
  show ?thesis by blast
qed

text \<open>
  The claim as stated fails for a validated configuration without block periods: what
  \<open>load_config\<close> returns after the save differs from what was saved.
\<close>

theorem empty_block_list_not_kept:
  "validate_and_start plain_form = Inr plain_config
   \<and> save_config NoFile plain_config WriteOk = (Content plain_config, True)
   \<and> load_config (Content plain_config) \<noteq> plain_config"
  by code_simp


end
